theory Spec2Isabelle
  imports Main "HOL-Library.Multiset"
begin

section \<open>JavaScript values and plain objects\<close>

text \<open>
  The services hand plain objects to each other (\<^verbatim>\<open>const { password, ...result } = user\<close>,
  the token payload literal, \<^verbatim>\<open>apiResponse\<close>).  An object is the list of its own
  properties in insertion order; reading a property that is not there gives
  \<^verbatim>\<open>undefined\<close>.
\<close>

datatype jsval =
    JUndefined
  | JNull
  | JNum int
  | JStr string
  | JArr "jsval list"
  | JObj "(string \<times> jsval) list"

type_synonym obj = "(string \<times> jsval) list"

definition get :: "obj \<Rightarrow> string \<Rightarrow> jsval" where
  "get ob k = (case map_of ob k of None \<Rightarrow> JUndefined | Some v \<Rightarrow> v)"

text \<open>\<^verbatim>\<open>const { k, ...rest } = ob\<close>: every own property of \<open>ob\<close> except \<open>k\<close>.\<close>

definition rest_without :: "string \<Rightarrow> obj \<Rightarrow> obj" where
  "rest_without k ob = filter (\<lambda>kv. fst kv \<noteq> k) ob"

section \<open>HTTP exceptions\<close>

text \<open>
  Every \<^verbatim>\<open>throw\<close> of the source is an \<open>Inl\<close> of this type.  \<open>TypeError\<close> is the
  runtime's error for reading a property of \<^verbatim>\<open>undefined\<close>; \<open>QueryFailedError\<close> is what
  the persistence layer raises when a \<^verbatim>\<open>unique: true\<close> column is violated.
\<close>

datatype exception =
    NotFoundException string
  | UnauthorizedException "string option"
  | ConflictException string
  | HttpException string nat
  | TypeError
  | QueryFailedError

definition HttpStatus_OK :: nat where "HttpStatus_OK = 200"
definition HttpStatus_CREATED :: nat where "HttpStatus_CREATED = 201"
definition HttpStatus_UNAUTHORIZED :: nat where "HttpStatus_UNAUTHORIZED = 401"

text \<open>
  What the framework's exception classes answer at the transport boundary: the status
  code and the message of the response body (the class's own default message when the
  constructor got none; errors that are not HTTP exceptions become a 500).
\<close>

fun getStatus :: "exception \<Rightarrow> nat" where
  "getStatus (NotFoundException m) = 404"
| "getStatus (UnauthorizedException m) = 401"
| "getStatus (ConflictException m) = 409"
| "getStatus (HttpException m s) = s"
| "getStatus TypeError = 500"
| "getStatus QueryFailedError = 500"

fun getMessage :: "exception \<Rightarrow> string" where
  "getMessage (NotFoundException m) = m"
| "getMessage (UnauthorizedException None) = ''Unauthorized''"
| "getMessage (UnauthorizedException (Some m)) = m"
| "getMessage (ConflictException m) = m"
| "getMessage (HttpException m s) = m"
| "getMessage TypeError = ''Internal server error''"
| "getMessage QueryFailedError = ''Internal server error''"

section \<open>The user entity and its table (user.entity.ts)\<close>

text \<open>
  \<^verbatim>\<open>id\<close> is the generated primary key, \<^verbatim>\<open>username\<close> and \<^verbatim>\<open>email\<close> are
  \<^verbatim>\<open>unique: true\<close>, \<^verbatim>\<open>roles\<close> is a simple array of role strings whose default is
  \<^verbatim>\<open>[Role.USER]\<close> (the migration writes the default as \<^verbatim>\<open>'{user}'\<close>).
\<close>

record user =
  user_id :: nat
  username :: string
  password :: string
  email :: string
  user_roles :: "string list"

definition Role_USER :: string where
  "Role_USER = ''user''"

text \<open>The table: its rows in insertion order and the next value of the id sequence.\<close>

record users_table =
  rows :: "user list"
  next_id :: nat

text \<open>The entity as the plain object whose properties the services read and spread.\<close>

definition user_obj :: "user \<Rightarrow> obj" where
  "user_obj u =
     [(''id'', JNum (int (user_id u))),
      (''username'', JStr (username u)),
      (''password'', JStr (password u)),
      (''email'', JStr (email u)),
      (''roles'', JArr (map JStr (user_roles u)))]"

section \<open>UserService (user.service.ts)\<close>

definition findOneByUsername :: "users_table \<Rightarrow> string \<Rightarrow> user option" where
  "findOneByUsername t name = List.find (\<lambda>u. username u = name) (rows t)"

definition findOneByEmail :: "users_table \<Rightarrow> string \<Rightarrow> user option" where
  "findOneByEmail t mail = List.find (\<lambda>u. email u = mail) (rows t)"

text \<open>
  \<^verbatim>\<open>usersRepository.save(usersRepository.create({ username, password, email }))\<close>:
  the insert takes the next id and the column default for the roles, and the table's
  unique columns reject a second row with the same username or email.
\<close>

definition Repository_save ::
  "users_table \<Rightarrow> string \<Rightarrow> string \<Rightarrow> string \<Rightarrow> (exception + user) \<times> users_table" where
  "Repository_save t name hashedPassword mail =
     (if list_ex (\<lambda>u. username u = name) (rows t) \<or> list_ex (\<lambda>u. email u = mail) (rows t)
      then (Inl QueryFailedError, t)
      else
        (let newUser = \<lparr>user_id = next_id t, username = name, password = hashedPassword,
                        email = mail, user_roles = [Role_USER]\<rparr>
         in (Inr newUser, t\<lparr>rows := rows t @ [newUser], next_id := Suc (next_id t)\<rparr>)))"

text \<open>
  \<^verbatim>\<open>UserService.create\<close>.  \<open>hash\<close> stands for \<^verbatim>\<open>bcrypt.hash(pass, 10)\<close>.  The result
  is the returned entity or the thrown exception, together with the table afterwards.
\<close>

definition UserService_create ::
  "(string \<Rightarrow> string) \<Rightarrow> users_table \<Rightarrow> string \<Rightarrow> string \<Rightarrow> string
     \<Rightarrow> (exception + user) \<times> users_table" where
  "UserService_create hash t mail name pass =
     (case findOneByEmail t mail of
        Some existingUserEmail \<Rightarrow>
          (Inl (ConflictException ''User with this email already exists''), t)
      | None \<Rightarrow>
         (case findOneByUsername t name of
            Some existingUserUsername \<Rightarrow>
              (Inl (ConflictException ''User with this username already exists''), t)
          | None \<Rightarrow>
              (let hashedPassword = hash pass
               in Repository_save t name hashedPassword mail)))"

section \<open>AuthService (auth.service.ts) and the response helper\<close>

text \<open>\<^verbatim>\<open>apiResponse(statusCode, message, data = null)\<close>.\<close>

definition apiResponse :: "nat \<Rightarrow> string \<Rightarrow> jsval \<Rightarrow> obj" where
  "apiResponse statusCode message data =
     [(''statusCode'', JNum (int statusCode)),
      (''message'', JStr message),
      (''data'', (if data = JUndefined then JNull else data))]"

text \<open>
  \<^verbatim>\<open>AuthService.validateUser\<close>.  \<open>compare\<close> stands for \<^verbatim>\<open>bcrypt.compare\<close>, applied
  to the supplied secret and the stored digest.
\<close>

definition validateUser ::
  "(string \<Rightarrow> string \<Rightarrow> bool) \<Rightarrow> users_table \<Rightarrow> string \<Rightarrow> string \<Rightarrow> exception + obj" where
  "validateUser compare t mail pass =
     (case findOneByEmail t mail of
        None \<Rightarrow> Inl (NotFoundException ''User not found'')
      | Some u \<Rightarrow>
          (if compare pass (password u)
           then (let result = rest_without ''password'' (user_obj u) in Inr result)
           else Inl (UnauthorizedException (Some ''Invalid credentials''))))"

text \<open>
  \<^verbatim>\<open>AuthService.login\<close>: the payload literal, and the response carrying the token that
  \<^verbatim>\<open>jwtService.sign\<close> makes of it (\<open>sign\<close> is the signing primitive).
\<close>

definition login_payload :: "obj \<Rightarrow> obj" where
  "login_payload usr =
     [(''email'', get usr ''email''),
      (''username'', get usr ''username''),
      (''sub'', get usr ''id''),
      (''roles'', get usr ''roles'')]"

definition login :: "(obj \<Rightarrow> string) \<Rightarrow> obj \<Rightarrow> obj" where
  "login sign usr =
     (let payload = login_payload usr;
          token = sign payload
      in apiResponse HttpStatus_OK ''Login successful'' (JObj [(''access_token'', JStr token)]))"

text \<open>\<^verbatim>\<open>AuthService.signup\<close>: the response or the exception, and the table afterwards.\<close>

definition signup ::
  "(string \<Rightarrow> string) \<Rightarrow> users_table \<Rightarrow> string \<Rightarrow> string \<Rightarrow> string
     \<Rightarrow> (exception + obj) \<times> users_table" where
  "signup hash t mail name pass =
     (case UserService_create hash t mail name pass of
        (Inl e, t') \<Rightarrow> (Inl e, t')
      | (Inr newUser, t') \<Rightarrow>
          (let result = rest_without ''password'' (user_obj newUser)
           in (Inr (apiResponse HttpStatus_CREATED ''Signup successful'' (JObj result)), t')))"

section \<open>JwtAuthGuard (jwt-auth.guard.ts)\<close>

text \<open>
  The third argument of \<^verbatim>\<open>handleRequest\<close> is what the token strategy reports about a
  token it refused: the verification library's error object, or nothing.  Only
  \<open>TokenExpiredError\<close> passes the test \<^verbatim>\<open>info instanceof TokenExpiredError\<close>.
\<close>

datatype jwt_info = NoInfo | TokenExpiredError | JsonWebTokenError | NoAuthToken

text \<open>
  \<^verbatim>\<open>handleRequest(err, user, info, context)\<close>.  A falsy \<^verbatim>\<open>err\<close> or \<^verbatim>\<open>user\<close> is
  \<open>None\<close>; the result is the user handed to the request or the exception thrown.
\<close>

definition handleRequest :: "exception option \<Rightarrow> 'u option \<Rightarrow> jwt_info \<Rightarrow> exception + 'u" where
  "handleRequest err usr info =
     (case (err, usr) of
        (None, Some u) \<Rightarrow> Inr u
      | _ \<Rightarrow>
          (if info = TokenExpiredError
           then Inl (HttpException ''JWT token has expired'' HttpStatus_UNAUTHORIZED)
           else Inl (case err of Some e \<Rightarrow> e | None \<Rightarrow> UnauthorizedException None)))"

section \<open>The guards of the guide (roles.guard.ts, permissions.guard.ts)\<close>

text \<open>
  \<^verbatim>\<open>request.user\<close> as the guards read it: the decoded token payload, whose
  \<^verbatim>\<open>roles\<close> and \<^verbatim>\<open>permissions\<close> properties may be absent.
\<close>

record jwt_user =
  roles :: "string list option"
  permissions :: "string list option"

text \<open>
  \<^verbatim>\<open>RolesGuard.canActivate\<close>.  The first argument is what the reflector finds for
  \<^verbatim>\<open>ROLES_KEY\<close> (\<open>None\<close> when the handler and the class carry no \<^verbatim>\<open>@Roles\<close>; an
  empty array is truthy).  The second is \<^verbatim>\<open>request.user\<close>; reading \<^verbatim>\<open>user.roles\<close> of
  an absent user throws, and \<^verbatim>\<open>some\<close> reads it once per required role until one
  matches.  \<^verbatim>\<open>user.roles?.includes(role)\<close> is \<^verbatim>\<open>undefined\<close>, hence falsy, when the
  roles are absent.
\<close>

definition optional_includes :: "'a list option \<Rightarrow> 'a \<Rightarrow> bool" where
  "optional_includes xs x = (case xs of None \<Rightarrow> False | Some ys \<Rightarrow> x \<in> set ys)"

definition RolesGuard_canActivate ::
  "string list option \<Rightarrow> jwt_user option \<Rightarrow> exception + bool" where
  "RolesGuard_canActivate requiredRoles usr =
     (case requiredRoles of
        None \<Rightarrow> Inr True
      | Some rs \<Rightarrow>
          (case usr of
             None \<Rightarrow> (if rs = [] then Inr False else Inl TypeError)
           | Some u \<Rightarrow> Inr (list_ex (\<lambda>role. optional_includes (roles u) role) rs)))"

text \<open>
  \<^verbatim>\<open>PermissionsGuard.canActivate\<close>: \<^verbatim>\<open>user.permissions || []\<close>, then
  \<^verbatim>\<open>requiredPermissions.every(permission => userPermissions.includes(permission))\<close>.
\<close>

definition PermissionsGuard_canActivate ::
  "string list option \<Rightarrow> jwt_user option \<Rightarrow> exception + bool" where
  "PermissionsGuard_canActivate requiredPermissions usr =
     (case requiredPermissions of
        None \<Rightarrow> Inr True
      | Some ps \<Rightarrow>
          (case usr of
             None \<Rightarrow> Inl TypeError
           | Some u \<Rightarrow>
               (let userPermissions = (case permissions u of None \<Rightarrow> [] | Some xs \<Rightarrow> xs)
                in Inr (list_all (\<lambda>permission. permission \<in> set userPermissions) ps))))"

text \<open>The role and permission sets that the claims carry, an absent array being empty.\<close>

definition roleNames :: "jwt_user \<Rightarrow> string set" where
  "roleNames u = (case roles u of None \<Rightarrow> {} | Some xs \<Rightarrow> set xs)"

definition permissionSet :: "jwt_user \<Rightarrow> string set" where
  "permissionSet u = (case permissions u of None \<Rightarrow> {} | Some xs \<Rightarrow> set xs)"

text \<open>
  Follows the spec's words, not the source: the permissions that a denial is to name,
  those required ones that the claims lack.
\<close>

definition spec_missing_permissions :: "string list \<Rightarrow> jwt_user \<Rightarrow> string list" where
  "spec_missing_permissions ps u =
     filter (\<lambda>p. \<not> optional_includes (permissions u) p) ps"

section \<open>The login of the guide, with role and permission entities\<close>

record Permission =
  permission_id :: nat
  permission_name :: string

record Role =
  role_id :: nat
  role_name :: string
  role_permissions :: "Permission list"

record dynamic_user =
  dyn_id :: nat
  dyn_username :: string
  dyn_roles :: "Role list"

definition flatMap :: "('a \<Rightarrow> 'b list) \<Rightarrow> 'a list \<Rightarrow> 'b list" where
  "flatMap f xs = concat (map f xs)"

text \<open>
  \<^verbatim>\<open>[...new Set(xs)]\<close>: a Set keeps its elements in the order of their first insertion,
  and adding an element it already has changes nothing.
\<close>

fun Set_add_all :: "'a list \<Rightarrow> 'a list \<Rightarrow> 'a list" where
  "Set_add_all s [] = s"
| "Set_add_all s (x # xs) = Set_add_all (if x \<in> set s then s else s @ [x]) xs"

definition spread_new_Set :: "'a list \<Rightarrow> 'a list" where
  "spread_new_Set xs = Set_add_all [] xs"

definition uniquePermissions :: "Role list \<Rightarrow> string list" where
  "uniquePermissions rs =
     (let permissions = flatMap (\<lambda>role. map permission_name (role_permissions role)) rs
      in spread_new_Set permissions)"

definition dynamic_login_payload :: "dynamic_user \<Rightarrow> obj" where
  "dynamic_login_payload usr =
     [(''username'', JStr (dyn_username usr)),
      (''sub'', JNum (int (dyn_id usr))),
      (''roles'', JArr (map (\<lambda>role. JStr (role_name role)) (dyn_roles usr))),
      (''permissions'', JArr (map JStr (uniquePermissions (dyn_roles usr))))]"

definition dynamic_login :: "(obj \<Rightarrow> string) \<Rightarrow> dynamic_user \<Rightarrow> obj" where
  "dynamic_login sign usr = [(''access_token'', JStr (sign (dynamic_login_payload usr)))]"

section \<open>The token codec\<close>

text \<open>
  The repository's token strategy (jwt.strategy.ts) and the verification library it
  configures are not among the sources; this section follows the spec's description of
  the codec.
\<close>

text \<open>
  Modelled from the spec: the three kinds of failure of the token codec's
  \<^verbatim>\<open>verify\<close>.
\<close>

datatype TokenError = Malformed | BadSignature | Expired

text \<open>
  Modelled from the spec: a token, described by what the checks of \<^verbatim>\<open>verify\<close> look
  at: whether it is structurally well formed, whether its signature is valid under the
  configured key, its expiry, and the claims it carries.
\<close>

record 'c token =
  well_formed :: bool
  signature_valid :: bool
  exp :: nat
  claims :: 'c

text \<open>
  Modelled from the spec: the token codec's \<^verbatim>\<open>verify\<close>, which is not among the
  sources.  It checks, in this order, structural well-formedness, the signature, and
  the expiry \<open>now < exp\<close>; the first check that fails gives its own kind.
\<close>

definition verify :: "nat \<Rightarrow> 'c token \<Rightarrow> TokenError + 'c" where
  "verify now tok =
     (if \<not> well_formed tok then Inl Malformed
      else if \<not> signature_valid tok then Inl BadSignature
      else if \<not> now < exp tok then Inl Expired
      else Inr (claims tok))"

text \<open>
  Modelled from the spec: what the token strategy, which is not among the sources,
  reports to the guard for each kind.  \<open>Expired\<close> is the library's
  \<open>TokenExpiredError\<close>, the other two kinds are its general token error.
\<close>

fun info_of :: "TokenError \<Rightarrow> jwt_info" where
  "info_of Expired = TokenExpiredError"
| "info_of Malformed = JsonWebTokenError"
| "info_of BadSignature = JsonWebTokenError"

text \<open>
  Modelled from the spec: the path of a bearer token through the token strategy, which
  is not among the sources, into \<^verbatim>\<open>handleRequest\<close>.  A refused token arrives with no
  error, no user and the report of its failure, an accepted one with its claims as the
  user.
\<close>

definition authenticate_request :: "nat \<Rightarrow> 'c token \<Rightarrow> exception + 'c" where
  "authenticate_request now tok =
     (case verify now tok of
        Inl e \<Rightarrow> handleRequest None None (info_of e)
      | Inr c \<Rightarrow> handleRequest None (Some c) NoInfo)"

section \<open>Concrete data for the examples\<close>

text \<open>
  A stand-in for the hashing primitive and its comparison, and a table holding the
  spec's scenario user \<^verbatim>\<open>a@x.com\<close> / \<^verbatim>\<open>alice\<close> with password \<^verbatim>\<open>p\<close>.
\<close>

definition example_hash :: "string \<Rightarrow> string" where
  "example_hash pass = ''$2b$10$'' @ pass"

definition example_compare :: "string \<Rightarrow> string \<Rightarrow> bool" where
  "example_compare pass digest = (digest = example_hash pass)"

definition alice :: user where
  "alice = \<lparr>user_id = 1, username = ''alice'', password = ''$2b$10$p'',
            email = ''a@x.com'', user_roles = [''user'']\<rparr>"

definition example_table :: users_table where
  "example_table = \<lparr>rows = [alice], next_id = 2\<rparr>"

definition articles_read :: Permission where
  "articles_read = \<lparr>permission_id = 1, permission_name = ''read-articles''\<rparr>"

definition articles_create :: Permission where
  "articles_create = \<lparr>permission_id = 2, permission_name = ''create-articles''\<rparr>"

definition articles_edit :: Permission where
  "articles_edit = \<lparr>permission_id = 3, permission_name = ''edit-articles''\<rparr>"

definition viewer :: Role where
  "viewer = \<lparr>role_id = 1, role_name = ''Viewer'', role_permissions = [articles_read]\<rparr>"

definition editor :: Role where
  "editor = \<lparr>role_id = 2, role_name = ''Editor'',
             role_permissions = [articles_create, articles_read, articles_edit]\<rparr>"

section \<open>Facts about the lookups, the spread and the Set\<close>

lemma findOneByEmail_None: "findOneByEmail t mail = None \<longleftrightarrow> mail \<notin> email ` set (rows t)"
  by (auto simp: findOneByEmail_def find_None_iff)

lemma findOneByUsername_None:
  "findOneByUsername t name = None \<longleftrightarrow> name \<notin> username ` set (rows t)"
  by (auto simp: findOneByUsername_def find_None_iff)

lemma findOneByEmail_Some:
  "findOneByEmail t mail = Some u \<Longrightarrow> u \<in> set (rows t) \<and> email u = mail"
  by (auto simp: findOneByEmail_def find_Some_iff)

lemma rest_without_absent: "k \<notin> fst ` set (rest_without k ob)"
  by (auto simp: rest_without_def)

lemma rest_without_user_obj:
  "rest_without ''password'' (user_obj u) =
     [(''id'', JNum (int (user_id u))),
      (''username'', JStr (username u)),
      (''email'', JStr (email u)),
      (''roles'', JArr (map JStr (user_roles u)))]"
  by (simp add: rest_without_def user_obj_def)

lemma validateUser_not_found:
  "mail \<notin> email ` set (rows t) \<Longrightarrow>
     validateUser compare t mail pass = Inl (NotFoundException ''User not found'')"
  using findOneByEmail_None [of t mail] by (simp add: validateUser_def)

lemma validateUser_mismatch:
  "findOneByEmail t mail = Some u \<Longrightarrow> \<not> compare pass (password u) \<Longrightarrow>
     validateUser compare t mail pass = Inl (UnauthorizedException (Some ''Invalid credentials''))"
  by (simp add: validateUser_def)

lemma validateUser_success:
  "validateUser compare t mail pass = Inr result \<Longrightarrow>
     \<exists>u. findOneByEmail t mail = Some u \<and> compare pass (password u)
        \<and> result = rest_without ''password'' (user_obj u)"
  by (auto simp: validateUser_def split: option.splits if_splits)

lemma Repository_save_fresh:
  "mail \<notin> email ` set (rows t) \<Longrightarrow> name \<notin> username ` set (rows t) \<Longrightarrow>
     Repository_save t name digest mail =
       (let newUser = \<lparr>user_id = next_id t, username = name, password = digest,
                       email = mail, user_roles = [Role_USER]\<rparr>
        in (Inr newUser, t\<lparr>rows := rows t @ [newUser], next_id := Suc (next_id t)\<rparr>))"
  by (auto simp: Repository_save_def list_ex_iff)

lemma create_email_taken:
  "mail \<in> email ` set (rows t) \<Longrightarrow>
     UserService_create hash t mail name pass
       = (Inl (ConflictException ''User with this email already exists''), t)"
  using findOneByEmail_None [of t mail]
  by (cases "findOneByEmail t mail") (auto simp: UserService_create_def)

lemma create_username_taken:
  "mail \<notin> email ` set (rows t) \<Longrightarrow> name \<in> username ` set (rows t) \<Longrightarrow>
     UserService_create hash t mail name pass
       = (Inl (ConflictException ''User with this username already exists''), t)"
  using findOneByEmail_None [of t mail] findOneByUsername_None [of t name]
  by (cases "findOneByUsername t name") (auto simp: UserService_create_def)

lemma create_fresh:
  "mail \<notin> email ` set (rows t) \<Longrightarrow> name \<notin> username ` set (rows t) \<Longrightarrow>
     UserService_create hash t mail name pass =
       (let newUser = \<lparr>user_id = next_id t, username = name, password = hash pass,
                       email = mail, user_roles = [Role_USER]\<rparr>
        in (Inr newUser, t\<lparr>rows := rows t @ [newUser], next_id := Suc (next_id t)\<rparr>))"
  using findOneByEmail_None [of t mail] findOneByUsername_None [of t name]
  by (simp add: UserService_create_def Repository_save_fresh)

lemma signup_success:
  "signup hash t mail name pass = (Inr response, t') \<Longrightarrow>
     \<exists>newUser. UserService_create hash t mail name pass = (Inr newUser, t')
        \<and> response = apiResponse 201 ''Signup successful''
             (JObj (rest_without ''password'' (user_obj newUser)))"
  by (auto simp: signup_def HttpStatus_CREATED_def split: prod.splits sum.splits)

lemma set_Set_add_all: "set (Set_add_all s xs) = set s \<union> set xs"
  by (induction xs arbitrary: s) auto

lemma distinct_Set_add_all: "distinct s \<Longrightarrow> distinct (Set_add_all s xs)"
  by (induction xs arbitrary: s) auto

lemma set_uniquePermissions:
  "set (uniquePermissions rs) = (\<Union>r \<in> set rs. permission_name ` set (role_permissions r))"
  by (simp add: uniquePermissions_def spread_new_Set_def flatMap_def set_Set_add_all)

lemma distinct_uniquePermissions: "distinct (uniquePermissions rs)"
  by (simp add: uniquePermissions_def spread_new_Set_def distinct_Set_add_all)

subsection \<open>The example table\<close>

lemma example_rows: "rows example_table = [alice]"
  by (simp add: example_table_def)

lemma alice_fields:
  "email alice = ''a@x.com''" "username alice = ''alice''" "password alice = ''$2b$10$p''"
  "user_id alice = 1" "user_roles alice = [''user'']"
  by (simp_all add: alice_def)

lemma findOneByEmail_alice: "findOneByEmail example_table ''a@x.com'' = Some alice"
  by (simp add: findOneByEmail_def example_rows alice_fields)

lemma no_bob: "''b@x.com'' \<notin> email ` set (rows example_table)"
  by (simp add: example_rows alice_fields)

lemma wrong_secret: "\<not> example_compare ''wrong'' (password alice)"
  by (simp add: example_compare_def example_hash_def alice_fields)

lemma right_secret: "example_compare ''p'' (password alice)"
  by (simp add: example_compare_def example_hash_def alice_fields)

lemma validateUser_alice:
  "validateUser example_compare example_table ''a@x.com'' ''p''
     = Inr (rest_without ''password'' (user_obj alice))"
  by (simp add: validateUser_def findOneByEmail_alice right_secret)

lemma alice_sans_password:
  "rest_without ''password'' (user_obj alice)
     = [(''id'', JNum 1), (''username'', JStr ''alice''), (''email'', JStr ''a@x.com''),
        (''roles'', JArr [JStr ''user''])]"
  by (simp add: rest_without_user_obj alice_fields)

lemma signup_bob:
  "signup example_hash example_table ''b@x.com'' ''bob'' ''s''
     = (Inr [(''statusCode'', JNum 201), (''message'', JStr ''Signup successful''),
             (''data'', JObj [(''id'', JNum 2), (''username'', JStr ''bob''),
                              (''email'', JStr ''b@x.com''), (''roles'', JArr [JStr ''user''])])],
        example_table\<lparr>rows := [alice, \<lparr>user_id = 2, username = ''bob'',
              password = ''$2b$10$s'', email = ''b@x.com'', user_roles = [''user'']\<rparr>],
          next_id := 3\<rparr>)"
proof -
  have f: "''b@x.com'' \<notin> email ` set (rows example_table)"
          "''bob'' \<notin> username ` set (rows example_table)"
    by (simp_all add: example_rows alice_fields)
  have n: "next_id example_table = 2"
    by (simp add: example_table_def)
  have c: "UserService_create example_hash example_table ''b@x.com'' ''bob'' ''s''
     = (Inr \<lparr>user_id = 2, username = ''bob'', password = ''$2b$10$s'',
              email = ''b@x.com'', user_roles = [''user'']\<rparr>,
        example_table\<lparr>rows := [alice, \<lparr>user_id = 2, username = ''bob'',
              password = ''$2b$10$s'', email = ''b@x.com'', user_roles = [''user'']\<rparr>],
          next_id := 3\<rparr>)"
    by (simp add: create_fresh [OF f] Let_def n example_rows Role_USER_def example_hash_def)
  show ?thesis
    by (simp add: signup_def c rest_without_user_obj apiResponse_def HttpStatus_CREATED_def)
qed

subsection \<open>The guard's three outcomes\<close>

lemma handleRequest_expired:
  "err \<noteq> None \<or> usr = None \<Longrightarrow>
     handleRequest err usr TokenExpiredError = Inl (HttpException ''JWT token has expired'' 401)"
  by (auto simp: handleRequest_def HttpStatus_UNAUTHORIZED_def split: option.splits)

lemma handleRequest_generic:
  "info \<noteq> TokenExpiredError \<Longrightarrow> handleRequest None None info = Inl (UnauthorizedException None)"
  by (simp add: handleRequest_def)

lemma handleRequest_user: "handleRequest None (Some u) info = Inr u"
  by (simp add: handleRequest_def)

lemma other_failures_generic:
  "\<not> well_formed tok \<or> \<not> signature_valid tok \<Longrightarrow>
     authenticate_request now tok = Inl (UnauthorizedException None)"
  by (auto simp: authenticate_request_def verify_def handleRequest_generic)

lemma RolesGuard_absent_user_throws:
  "RolesGuard_canActivate (Some (r # rs)) None = Inl TypeError"
  by (simp add: RolesGuard_canActivate_def)

section \<open>The role gate\<close>

text \<open>
  Claim C1.  For an operation that declares the required roles \<open>R\<close> and a request whose
  token was verified (so that \<^verbatim>\<open>request.user\<close> is there), \<^verbatim>\<open>RolesGuard.canActivate\<close>
  returns without throwing, and it returns \<^verbatim>\<open>true\<close> exactly when some role of the
  claims is among \<open>R\<close>; otherwise it returns \<^verbatim>\<open>false\<close>, the guard's denial for want of
  a role.
\<close>

theorem RolesGuard_allows_iff_some_role:
  "RolesGuard_canActivate (Some R) (Some u) = Inr (roleNames u \<inter> set R \<noteq> {})"
  by (auto simp: RolesGuard_canActivate_def roleNames_def optional_includes_def list_ex_iff
           split: option.splits)

text \<open>
  The spec's example: the operation requires \<^verbatim>\<open>admin\<close> or \<^verbatim>\<open>moderator\<close>; a moderator
  is let in, a plain user is not.
\<close>

theorem RolesGuard_allows_iff_some_role_witness:
  "RolesGuard_canActivate (Some [''admin'', ''moderator''])
      (Some \<lparr>roles = Some [''moderator''], permissions = None\<rparr>) = Inr True
   \<and> RolesGuard_canActivate (Some [''admin'', ''moderator''])
      (Some \<lparr>roles = Some [''user''], permissions = None\<rparr>) = Inr False"
  using RolesGuard_allows_iff_some_role [of "[''admin'', ''moderator'']"
          "\<lparr>roles = Some [''moderator''], permissions = None\<rparr>"]
        RolesGuard_allows_iff_some_role [of "[''admin'', ''moderator'']"
          "\<lparr>roles = Some [''user''], permissions = None\<rparr>"]
  by (simp add: roleNames_def)

section \<open>The permission gate\<close>

text \<open>
  Claim C2, as the spec has it, fails in its last part: a denial of
  \<^verbatim>\<open>PermissionsGuard.canActivate\<close> is the boolean \<^verbatim>\<open>false\<close> and names nothing.  Two
  principals who lack different permissions of the same operation get the same
  outcome.
\<close>

theorem PermissionsGuard_denial_names_nothing:
  "PermissionsGuard_canActivate (Some [''create-articles'', ''edit-articles''])
      (Some \<lparr>roles = None, permissions = Some [''create-articles'']\<rparr>) = Inr False
   \<and> PermissionsGuard_canActivate (Some [''create-articles'', ''edit-articles''])
      (Some \<lparr>roles = None, permissions = Some []\<rparr>) = Inr False
   \<and> spec_missing_permissions [''create-articles'', ''edit-articles'']
        \<lparr>roles = None, permissions = Some [''create-articles'']\<rparr> = [''edit-articles'']
   \<and> spec_missing_permissions [''create-articles'', ''edit-articles'']
        \<lparr>roles = None, permissions = Some []\<rparr> = [''create-articles'', ''edit-articles'']"
  by (simp add: PermissionsGuard_canActivate_def spec_missing_permissions_def
        optional_includes_def)

text \<open>
  Claim C2, amended.  For an operation that declares the required permissions \<open>P\<close> and a
  request whose token was verified, \<^verbatim>\<open>PermissionsGuard.canActivate\<close> returns without
  throwing, and it returns \<^verbatim>\<open>true\<close> exactly when every permission of \<open>P\<close> is among
  the claims' permissions (absent permissions counting as none); otherwise it returns
  the bare \<^verbatim>\<open>false\<close>.
\<close>

theorem PermissionsGuard_allows_iff_all_permissions:
  "PermissionsGuard_canActivate (Some P) (Some u) = Inr (set P \<subseteq> permissionSet u)"
  by (auto simp: PermissionsGuard_canActivate_def permissionSet_def list_all_iff
           split: option.splits)

theorem PermissionsGuard_allows_iff_all_permissions_witness:
  "PermissionsGuard_canActivate (Some [''create-articles'', ''edit-articles''])
      (Some \<lparr>roles = None, permissions = Some [''edit-articles'', ''create-articles'']\<rparr>)
     = Inr True
   \<and> PermissionsGuard_canActivate (Some [''create-articles'', ''edit-articles''])
      (Some \<lparr>roles = None, permissions = None\<rparr>) = Inr False"
  using PermissionsGuard_allows_iff_all_permissions [of "[''create-articles'', ''edit-articles'']"
          "\<lparr>roles = None, permissions = Some [''edit-articles'', ''create-articles'']\<rparr>"]
        PermissionsGuard_allows_iff_all_permissions [of "[''create-articles'', ''edit-articles'']"
          "\<lparr>roles = None, permissions = None\<rparr>"]
  by (simp add: permissionSet_def)

section \<open>The permissions of the token\<close>

text \<open>
  The array depends on the order of the roles, the set it holds does not.
\<close>

lemma uniquePermissions_order_example:
  "uniquePermissions [viewer, editor] = [''read-articles'', ''create-articles'', ''edit-articles'']"
  "uniquePermissions [editor, viewer] = [''create-articles'', ''read-articles'', ''edit-articles'']"
  by (simp_all add: uniquePermissions_def spread_new_Set_def flatMap_def viewer_def editor_def
        articles_read_def articles_create_def articles_edit_def)

text \<open>
  Claim C3.  The permissions that the guide's login puts into the token have no
  duplicates and are, as a set, the union of the permission names of the principal's
  roles; listing the same roles in another order gives the same set (the same
  permissions, each once).
\<close>

theorem uniquePermissions_is_union:
  "distinct (uniquePermissions rs)
   \<and> set (uniquePermissions rs) = (\<Union>r \<in> set rs. permission_name ` set (role_permissions r))
   \<and> get (dynamic_login_payload usr) ''permissions''
        = JArr (map JStr (uniquePermissions (dyn_roles usr)))
   \<and> (mset rs = mset rs' \<longrightarrow>
        set (uniquePermissions rs') = set (uniquePermissions rs)
        \<and> mset (uniquePermissions rs') = mset (uniquePermissions rs))"
proof -
  have "mset (uniquePermissions rs') = mset (uniquePermissions rs)"
       and "set (uniquePermissions rs') = set (uniquePermissions rs)"
    if "mset rs = mset rs'"
  proof -
    from that have "set rs = set rs'" by (rule mset_eq_setD)
    then show s: "set (uniquePermissions rs') = set (uniquePermissions rs)"
      by (simp add: set_uniquePermissions)
    show "mset (uniquePermissions rs') = mset (uniquePermissions rs)"
      using s distinct_uniquePermissions set_eq_iff_mset_eq_distinct by blast
  qed
  moreover have "get (dynamic_login_payload usr) ''permissions''
        = JArr (map JStr (uniquePermissions (dyn_roles usr)))"
    by (simp add: get_def dynamic_login_payload_def)
  ultimately show ?thesis
    using distinct_uniquePermissions [of rs] set_uniquePermissions [of rs] by blast
qed

theorem uniquePermissions_is_union_witness:
  "mset [viewer, editor] = mset [editor, viewer]
   \<and> set (uniquePermissions [editor, viewer]) = set (uniquePermissions [viewer, editor])
   \<and> mset (uniquePermissions [editor, viewer]) = mset (uniquePermissions [viewer, editor])
   \<and> distinct (uniquePermissions [viewer, editor])"
proof -
  have h: "mset [viewer, editor] = mset [editor, viewer]"
    by (simp add: add_mset_commute)
  show ?thesis
    using h uniquePermissions_is_union [of "[viewer, editor]" usr "[editor, viewer]"]
    by blast
qed

section \<open>The payload of the shipped login\<close>

text \<open>
  Claim C4, as the spec has it, fails in its last part: the payload that
  \<^verbatim>\<open>AuthService.login\<close> hands to the signer carries the \<^verbatim>\<open>email\<close>, the
  \<^verbatim>\<open>username\<close>, the id as \<^verbatim>\<open>sub\<close> and the \<^verbatim>\<open>roles\<close>, and no permissions.  The
  scenario user logs in with the right password; the payload made of the validated
  user has no \<^verbatim>\<open>permissions\<close> property.
\<close>

theorem login_payload_example_no_permissions:
  "validateUser example_compare example_table ''a@x.com'' ''p''
     = Inr [(''id'', JNum 1), (''username'', JStr ''alice''), (''email'', JStr ''a@x.com''),
            (''roles'', JArr [JStr ''user''])]
   \<and> login_payload [(''id'', JNum 1), (''username'', JStr ''alice''),
          (''email'', JStr ''a@x.com''), (''roles'', JArr [JStr ''user''])]
     = [(''email'', JStr ''a@x.com''), (''username'', JStr ''alice''), (''sub'', JNum 1),
        (''roles'', JArr [JStr ''user''])]
   \<and> map_of (login_payload [(''id'', JNum 1), (''username'', JStr ''alice''),
          (''email'', JStr ''a@x.com''), (''roles'', JArr [JStr ''user''])]) ''permissions''
     = None"
  by (simp add: validateUser_alice alice_sans_password login_payload_def get_def)

text \<open>
  Claim C4, amended.  For every login, the payload that \<^verbatim>\<open>login\<close> hands to the signer,
  to be embedded in the issued token, contains the principal's email, username, id (as
  \<^verbatim>\<open>sub\<close>) and the array of role names, and no permission identifiers; the response
  carries the token that the signer makes of this payload.  The theorem fixes the
  object literal of \<^verbatim>\<open>login\<close>: it has the properties \<^verbatim>\<open>email\<close>, \<^verbatim>\<open>username\<close>,
  \<^verbatim>\<open>sub\<close> and \<^verbatim>\<open>roles\<close>, and when the user object is what \<^verbatim>\<open>validateUser\<close>
  returned, their values are those of the stored principal with that email.  What the
  signer adds of its own to the token (the issued-at and expiry timestamps) is not
  part of the literal and is left open.
\<close>

theorem login_payload_fields:
  "map fst (login_payload usr) = [''email'', ''username'', ''sub'', ''roles'']
   \<and> map_of (login_payload usr) ''permissions'' = None
   \<and> login sign usr = apiResponse 200 ''Login successful''
        (JObj [(''access_token'', JStr (sign (login_payload usr)))])
   \<and> (validateUser compare t mail pass = Inr usr \<longrightarrow>
        (\<exists>u \<in> set (rows t). email u = mail \<and>
           login_payload usr =
             [(''email'', JStr (email u)),
              (''username'', JStr (username u)),
              (''sub'', JNum (int (user_id u))),
              (''roles'', JArr (map JStr (user_roles u)))]))"
proof -
  have keys: "map fst (login_payload usr) = [''email'', ''username'', ''sub'', ''roles'']"
    by (simp add: login_payload_def)
  have none: "map_of (login_payload usr) ''permissions'' = None"
    by (simp add: login_payload_def)
  have resp: "login sign usr = apiResponse 200 ''Login successful''
        (JObj [(''access_token'', JStr (sign (login_payload usr)))])"
    by (simp add: login_def HttpStatus_OK_def)
  have "\<exists>u \<in> set (rows t). email u = mail \<and>
           login_payload usr =
             [(''email'', JStr (email u)),
              (''username'', JStr (username u)),
              (''sub'', JNum (int (user_id u))),
              (''roles'', JArr (map JStr (user_roles u)))]"
    if ok: "validateUser compare t mail pass = Inr usr"
  proof -
    from validateUser_success [OF ok] obtain u where
      f: "findOneByEmail t mail = Some u" and r: "usr = rest_without ''password'' (user_obj u)"
      by blast
    have "login_payload usr =
             [(''email'', JStr (email u)),
              (''username'', JStr (username u)),
              (''sub'', JNum (int (user_id u))),
              (''roles'', JArr (map JStr (user_roles u)))]"
      by (simp add: r rest_without_user_obj login_payload_def get_def)
    with findOneByEmail_Some [OF f] show ?thesis by blast
  qed
  with keys none resp show ?thesis by blast
qed

theorem login_payload_fields_witness:
  "validateUser example_compare example_table ''a@x.com'' ''p''
     = Inr (rest_without ''password'' (user_obj alice))
   \<and> login_payload (rest_without ''password'' (user_obj alice))
     = [(''email'', JStr ''a@x.com''), (''username'', JStr ''alice''), (''sub'', JNum 1),
        (''roles'', JArr [JStr ''user''])]"
proof -
  have ok: "validateUser example_compare example_table ''a@x.com'' ''p''
     = Inr (rest_without ''password'' (user_obj alice))"
    by (rule validateUser_alice)
  from login_payload_fields [of "rest_without ''password'' (user_obj alice)" sign
         example_compare example_table "''a@x.com''" "''p''"] ok
  have "\<exists>u \<in> set (rows example_table). email u = ''a@x.com'' \<and>
           login_payload (rest_without ''password'' (user_obj alice)) =
             [(''email'', JStr (email u)),
              (''username'', JStr (username u)),
              (''sub'', JNum (int (user_id u))),
              (''roles'', JArr (map JStr (user_roles u)))]"
    by blast
  then have "login_payload (rest_without ''password'' (user_obj alice))
     = [(''email'', JStr ''a@x.com''), (''username'', JStr ''alice''), (''sub'', JNum 1),
        (''roles'', JArr [JStr ''user''])]"
    by (simp add: example_rows alice_fields)
  with ok show ?thesis by blast
qed

section \<open>An expired token\<close>

text \<open>
  Claim C5.  A token that is well formed and correctly signed and whose expiry is not
  after the present moment fails verification with the kind \<open>Expired\<close> (so with neither
  of the other two kinds), and \<^verbatim>\<open>JwtAuthGuard.handleRequest\<close> answers it with the
  exception \<^verbatim>\<open>HttpException('JWT token has expired', 401)\<close>.  That answer is kept
  for expiry: every token that is malformed or wrongly signed gets the generic
  \<^verbatim>\<open>UnauthorizedException()\<close>, which differs from the expired answer in the message
  of the response, and a token that verifies is let through with its claims.  Of the
  guard itself: whenever it has an error or no user and the report is the expiry error,
  it throws the expired answer; with no error, no user and any other report it throws
  the generic one, and with an error and any other report it rethrows that error.
\<close>

theorem expired_token_session_expired:
  assumes "well_formed tok" and "signature_valid tok" and "exp tok \<le> now"
  shows "verify now tok = Inl Expired
       \<and> authenticate_request now tok = Inl (HttpException ''JWT token has expired'' 401)
       \<and> authenticate_request now tok \<noteq> Inl (UnauthorizedException None)
       \<and> getMessage (HttpException ''JWT token has expired'' 401)
            \<noteq> getMessage (UnauthorizedException None)
       \<and> (\<forall>other. \<not> well_formed other \<or> \<not> signature_valid other \<longrightarrow>
             authenticate_request now other = Inl (UnauthorizedException None)
             \<and> authenticate_request now other \<noteq> authenticate_request now tok)
       \<and> (\<forall>valid. well_formed valid \<and> signature_valid valid \<and> now < exp valid \<longrightarrow>
             authenticate_request now valid = Inr (claims valid))
       \<and> (\<forall>err (usr :: 'u option). err \<noteq> None \<or> usr = None \<longrightarrow>
             handleRequest err usr TokenExpiredError
               = Inl (HttpException ''JWT token has expired'' 401))
       \<and> (\<forall>info. info \<noteq> TokenExpiredError \<longrightarrow>
             handleRequest None (None :: 'u option) info = Inl (UnauthorizedException None))
       \<and> (\<forall>thrown (usr :: 'u option) info. info \<noteq> TokenExpiredError \<longrightarrow>
             handleRequest (Some thrown) usr info = Inl thrown)"
proof -
  from assms have v: "verify now tok = Inl Expired"
    by (simp add: verify_def)
  then have a: "authenticate_request now tok = Inl (HttpException ''JWT token has expired'' 401)"
    by (simp add: authenticate_request_def handleRequest_expired)
  have m: "getMessage (HttpException ''JWT token has expired'' 401)
            \<noteq> getMessage (UnauthorizedException None)"
    by simp
  have o: "authenticate_request now other = Inl (UnauthorizedException None)
             \<and> authenticate_request now other \<noteq> authenticate_request now tok"
    if "\<not> well_formed other \<or> \<not> signature_valid other" for other
    using other_failures_generic [OF that, of now] a by simp
  have g: "authenticate_request now valid = Inr (claims valid)"
    if "well_formed valid \<and> signature_valid valid \<and> now < exp valid" for valid
    using that by (simp add: authenticate_request_def verify_def handleRequest_user)
  have e: "handleRequest err usr TokenExpiredError
               = Inl (HttpException ''JWT token has expired'' 401)"
    if "err \<noteq> None \<or> usr = None" for err and usr :: "'u option"
    using that by (rule handleRequest_expired)
  have u: "handleRequest None (None :: 'u option) info = Inl (UnauthorizedException None)"
    if "info \<noteq> TokenExpiredError" for info
    using that by (rule handleRequest_generic)
  have r: "handleRequest (Some thrown) usr info = Inl thrown"
    if "info \<noteq> TokenExpiredError" for thrown info and usr :: "'u option"
    using that by (simp add: handleRequest_def split: option.splits)
  from v a have d: "authenticate_request now tok \<noteq> Inl (UnauthorizedException None)"
    by simp
  from v a d m o g e u r show ?thesis by blast
qed

text \<open>
  An expired token, a forged one with a later expiry, and a good one, at the moment
  100.
\<close>

theorem expired_token_session_expired_witness:
  "well_formed \<lparr>well_formed = True, signature_valid = True, exp = 50, claims = ''alice''\<rparr>
   \<and> signature_valid \<lparr>well_formed = True, signature_valid = True, exp = 50, claims = ''alice''\<rparr>
   \<and> exp \<lparr>well_formed = True, signature_valid = True, exp = 50, claims = ''alice''\<rparr> \<le> 100
   \<and> verify 100 \<lparr>well_formed = True, signature_valid = True, exp = 50, claims = ''alice''\<rparr>
       = Inl Expired
   \<and> authenticate_request 100
        \<lparr>well_formed = True, signature_valid = True, exp = 50, claims = ''alice''\<rparr>
       = Inl (HttpException ''JWT token has expired'' 401)
   \<and> authenticate_request 100
        \<lparr>well_formed = True, signature_valid = False, exp = 200, claims = ''alice''\<rparr>
       = Inl (UnauthorizedException None)
   \<and> authenticate_request 100
        \<lparr>well_formed = True, signature_valid = True, exp = 200, claims = ''alice''\<rparr>
       = Inr ''alice''
   \<and> handleRequest None (None :: string option) NoAuthToken = Inl (UnauthorizedException None)"
proof -
  have h1: "well_formed \<lparr>well_formed = True, signature_valid = True, exp = 50, claims = ''alice''\<rparr>"
    by simp
  have h2: "signature_valid \<lparr>well_formed = True, signature_valid = True, exp = 50, claims = ''alice''\<rparr>"
    by simp
  have h3: "exp \<lparr>well_formed = True, signature_valid = True, exp = 50, claims = ''alice''\<rparr> \<le> 100"
    by simp
  note t = expired_token_session_expired [OF h1 h2 h3]
  have forged: "\<not> well_formed \<lparr>well_formed = True, signature_valid = False, exp = 200, claims = ''alice''\<rparr>
      \<or> \<not> signature_valid \<lparr>well_formed = True, signature_valid = False, exp = 200, claims = ''alice''\<rparr>"
    by simp
  have good: "well_formed \<lparr>well_formed = True, signature_valid = True, exp = 200, claims = ''alice''\<rparr>
      \<and> signature_valid \<lparr>well_formed = True, signature_valid = True, exp = 200, claims = ''alice''\<rparr>
      \<and> 100 < exp \<lparr>well_formed = True, signature_valid = True, exp = 200, claims = ''alice''\<rparr>"
    by simp
  have c: "claims \<lparr>well_formed = True, signature_valid = True, exp = 200, claims = ''alice''\<rparr>
      = ''alice''"
    by simp
  have n: "NoAuthToken \<noteq> TokenExpiredError"
    by simp
  from t forged have f: "authenticate_request 100
        \<lparr>well_formed = True, signature_valid = False, exp = 200, claims = ''alice''\<rparr>
       = Inl (UnauthorizedException None)"
    by blast
  from t good have g: "authenticate_request 100
        \<lparr>well_formed = True, signature_valid = True, exp = 200, claims = ''alice''\<rparr>
       = Inr (claims \<lparr>well_formed = True, signature_valid = True, exp = 200, claims = ''alice''\<rparr>)"
    by blast
  from t n have u: "handleRequest None (None :: string option) NoAuthToken
       = Inl (UnauthorizedException None)"
    by blast
  from t h1 h2 h3 f g [unfolded c] u show ?thesis by blast
qed

section \<open>Failed authentication\<close>

text \<open>
  Claim C6.  \<^verbatim>\<open>validateUser\<close> fails with \<^verbatim>\<open>NotFoundException('User not found')\<close> when
  no principal has the given email, and with
  \<^verbatim>\<open>UnauthorizedException('Invalid credentials')\<close> when the principal found for the
  email has a digest that the supplied secret does not match; for a registered email
  the failure is never the not-found one.
\<close>

theorem validateUser_error_kinds:
  "(mail \<notin> email ` set (rows t) \<longrightarrow>
      validateUser compare t mail pass = Inl (NotFoundException ''User not found''))
   \<and> (findOneByEmail t mail = Some u \<and> \<not> compare pass (password u) \<longrightarrow>
      validateUser compare t mail pass
        = Inl (UnauthorizedException (Some ''Invalid credentials'')))
   \<and> (mail \<in> email ` set (rows t) \<longrightarrow>
      (\<forall>m. validateUser compare t mail pass \<noteq> Inl (NotFoundException m)))"
proof -
  have "validateUser compare t mail pass \<noteq> Inl (NotFoundException m)"
    if "mail \<in> email ` set (rows t)" for m
  proof -
    from that findOneByEmail_None [of t mail] obtain v where "findOneByEmail t mail = Some v"
      by (cases "findOneByEmail t mail") auto
    then show ?thesis by (simp add: validateUser_def)
  qed
  then show ?thesis
    using validateUser_not_found [where mail = mail and t = t and compare = compare and pass = pass]
          validateUser_mismatch [where mail = mail and t = t and compare = compare and pass = pass
            and u = u]
    by blast
qed

theorem validateUser_error_kinds_witness:
  "''b@x.com'' \<notin> email ` set (rows example_table)
   \<and> validateUser example_compare example_table ''b@x.com'' ''p''
       = Inl (NotFoundException ''User not found'')
   \<and> findOneByEmail example_table ''a@x.com'' = Some alice
   \<and> \<not> example_compare ''wrong'' (password alice)
   \<and> ''a@x.com'' \<in> email ` set (rows example_table)
   \<and> validateUser example_compare example_table ''a@x.com'' ''wrong''
       = Inl (UnauthorizedException (Some ''Invalid credentials''))
   \<and> validateUser example_compare example_table ''a@x.com'' ''wrong''
       \<noteq> Inl (NotFoundException ''User not found'')"
proof -
  have reg: "''a@x.com'' \<in> email ` set (rows example_table)"
    by (simp add: example_rows alice_fields)
  show ?thesis
    using validateUser_error_kinds [where mail = "''b@x.com''" and t = example_table
            and compare = example_compare and pass = "''p''" and u = alice]
          validateUser_error_kinds [where mail = "''a@x.com''" and t = example_table
            and compare = example_compare and pass = "''wrong''" and u = alice]
          no_bob findOneByEmail_alice wrong_secret reg
    by blast
qed

text \<open>
  Claim C7, as the spec has it, fails: the two failures are different HTTP exceptions.
  On the example table an unknown email is answered with status 404 and the message
  \<^verbatim>\<open>User not found\<close>, a wrong password for a known email with status 401 and the
  message \<^verbatim>\<open>Invalid credentials\<close>.
\<close>

theorem login_failures_distinguishable_example:
  "validateUser example_compare example_table ''b@x.com'' ''p''
       = Inl (NotFoundException ''User not found'')
   \<and> validateUser example_compare example_table ''a@x.com'' ''wrong''
       = Inl (UnauthorizedException (Some ''Invalid credentials''))
   \<and> getStatus (NotFoundException ''User not found'') = 404
   \<and> getStatus (UnauthorizedException (Some ''Invalid credentials'')) = 401
   \<and> getMessage (NotFoundException ''User not found'') = ''User not found''
   \<and> getMessage (UnauthorizedException (Some ''Invalid credentials'')) = ''Invalid credentials''"
  using validateUser_not_found [OF no_bob, where compare = example_compare and pass = "''p''"]
        validateUser_mismatch [where compare = example_compare and pass = "''wrong''",
          OF findOneByEmail_alice wrong_secret]
  by simp

text \<open>
  Claim C7, amended.  Of two failed authentication attempts, one with an unregistered
  email and one with a registered email and a wrong secret, the first throws an
  exception of status 404 with the message \<^verbatim>\<open>User not found\<close> and the second one of
  status 401 with the message \<^verbatim>\<open>Invalid credentials\<close>: the two are told apart by
  code and by message.
\<close>

theorem validateUser_failures_differ:
  assumes "mail_a \<notin> email ` set (rows t)"
      and "findOneByEmail t mail_b = Some u"
      and "\<not> compare pass_b (password u)"
  shows "\<exists>e1 e2. validateUser compare t mail_a pass_a = Inl e1
           \<and> validateUser compare t mail_b pass_b = Inl e2
           \<and> getStatus e1 = 404 \<and> getStatus e2 = 401
           \<and> getMessage e1 = ''User not found'' \<and> getMessage e2 = ''Invalid credentials''"
  using validateUser_not_found [OF assms(1), where compare = compare and pass = pass_a]
        validateUser_mismatch [where compare = compare and pass = pass_b, OF assms(2) assms(3)]
  by simp

theorem validateUser_failures_differ_witness:
  "''b@x.com'' \<notin> email ` set (rows example_table)
   \<and> findOneByEmail example_table ''a@x.com'' = Some alice
   \<and> \<not> example_compare ''wrong'' (password alice)
   \<and> (\<exists>e1 e2. validateUser example_compare example_table ''b@x.com'' ''p'' = Inl e1
           \<and> validateUser example_compare example_table ''a@x.com'' ''wrong'' = Inl e2
           \<and> getStatus e1 = 404 \<and> getStatus e2 = 401
           \<and> getMessage e1 = ''User not found'' \<and> getMessage e2 = ''Invalid credentials'')"
  using validateUser_failures_differ [where compare = example_compare and pass_a = "''p''"
          and pass_b = "''wrong''", OF no_bob findOneByEmail_alice wrong_secret]
        no_bob findOneByEmail_alice wrong_secret
  by blast

section \<open>Signup\<close>

text \<open>
  Claim C8.  \<^verbatim>\<open>UserService.create\<close> looks for the email, then for the username, and
  writes only when neither is registered.  A registered email gives the conflict
  exception that names the email, otherwise a registered username the one that names
  the username, and in both cases the table is as it was; whenever \<^verbatim>\<open>create\<close> fails,
  it fails with one of these two and leaves the table unchanged.  Otherwise the new
  principal is appended and returned.
\<close>

theorem create_checks_before_write:
  "UserService_create hash t mail name pass =
     (if mail \<in> email ` set (rows t)
      then (Inl (ConflictException ''User with this email already exists''), t)
      else if name \<in> username ` set (rows t)
      then (Inl (ConflictException ''User with this username already exists''), t)
      else (let newUser = \<lparr>user_id = next_id t, username = name, password = hash pass,
                            email = mail, user_roles = [Role_USER]\<rparr>
            in (Inr newUser, t\<lparr>rows := rows t @ [newUser], next_id := Suc (next_id t)\<rparr>)))
   \<and> (\<forall>e. fst (UserService_create hash t mail name pass) = Inl e \<longrightarrow>
          snd (UserService_create hash t mail name pass) = t
          \<and> (e = ConflictException ''User with this email already exists''
             \<or> e = ConflictException ''User with this username already exists''))"
proof -
  have eq: "UserService_create hash t mail name pass =
     (if mail \<in> email ` set (rows t)
      then (Inl (ConflictException ''User with this email already exists''), t)
      else if name \<in> username ` set (rows t)
      then (Inl (ConflictException ''User with this username already exists''), t)
      else (let newUser = \<lparr>user_id = next_id t, username = name, password = hash pass,
                            email = mail, user_roles = [Role_USER]\<rparr>
            in (Inr newUser, t\<lparr>rows := rows t @ [newUser], next_id := Suc (next_id t)\<rparr>)))"
    using create_email_taken [of mail t hash name pass]
          create_username_taken [of mail t name hash pass]
          create_fresh [of mail t name hash pass]
    by presburger
  have "snd (UserService_create hash t mail name pass) = t
          \<and> (e = ConflictException ''User with this email already exists''
             \<or> e = ConflictException ''User with this username already exists'')"
    if "fst (UserService_create hash t mail name pass) = Inl e" for e
    using that unfolding eq by (auto simp: Let_def split: if_splits)
  with eq show ?thesis by blast
qed

theorem create_checks_before_write_witness:
  "fst (UserService_create example_hash example_table ''a@x.com'' ''bob'' ''s'')
      = Inl (ConflictException ''User with this email already exists'')
   \<and> snd (UserService_create example_hash example_table ''a@x.com'' ''bob'' ''s'')
      = example_table
   \<and> UserService_create example_hash example_table ''b@x.com'' ''alice'' ''s''
      = (Inl (ConflictException ''User with this username already exists''), example_table)"
  using create_checks_before_write [of example_hash example_table "''a@x.com''" "''bob''" "''s''"]
        create_checks_before_write [of example_hash example_table "''b@x.com''" "''alice''" "''s''"]
  by (simp add: example_rows alice_fields)

section \<open>The digest stays inside\<close>

text \<open>
  Claim C9.  What \<^verbatim>\<open>validateUser\<close> returns on success is the stored principal's id,
  username, email and roles, with no \<^verbatim>\<open>password\<close> property; the response of a
  successful \<^verbatim>\<open>signup\<close> has no \<^verbatim>\<open>password\<close> property, and neither has the created
  principal in its \<^verbatim>\<open>data\<close>, which holds the new id, the username, the email and the
  default role.
\<close>

theorem results_carry_no_password:
  "(validateUser compare t mail pass = Inr result \<longrightarrow>
      ''password'' \<notin> fst ` set result
      \<and> (\<exists>u \<in> set (rows t). email u = mail \<and>
            result = [(''id'', JNum (int (user_id u))), (''username'', JStr (username u)),
                      (''email'', JStr (email u)), (''roles'', JArr (map JStr (user_roles u)))]))
   \<and> (signup hash t mail name pass = (Inr response, t') \<longrightarrow>
      ''password'' \<notin> fst ` set response
      \<and> (\<exists>created. get response ''data'' = JObj created
            \<and> ''password'' \<notin> fst ` set created
            \<and> created = [(''id'', JNum (int (next_id t))), (''username'', JStr name),
                         (''email'', JStr mail), (''roles'', JArr [JStr Role_USER])]))"
proof -
  have a: "''password'' \<notin> fst ` set result
      \<and> (\<exists>u \<in> set (rows t). email u = mail \<and>
            result = [(''id'', JNum (int (user_id u))), (''username'', JStr (username u)),
                      (''email'', JStr (email u)), (''roles'', JArr (map JStr (user_roles u)))])"
    if ok: "validateUser compare t mail pass = Inr result"
  proof -
    from validateUser_success [OF ok] obtain u where
      f: "findOneByEmail t mail = Some u" and r: "result = rest_without ''password'' (user_obj u)"
      by blast
    from r have "''password'' \<notin> fst ` set result"
      by (simp add: rest_without_absent)
    moreover from r have "result = [(''id'', JNum (int (user_id u))), (''username'', JStr (username u)),
                      (''email'', JStr (email u)), (''roles'', JArr (map JStr (user_roles u)))]"
      by (simp add: rest_without_user_obj)
    ultimately show ?thesis using findOneByEmail_Some [OF f] by blast
  qed
  have b: "''password'' \<notin> fst ` set response
      \<and> (\<exists>created. get response ''data'' = JObj created
            \<and> ''password'' \<notin> fst ` set created
            \<and> created = [(''id'', JNum (int (next_id t))), (''username'', JStr name),
                         (''email'', JStr mail), (''roles'', JArr [JStr Role_USER])])"
    if ok: "signup hash t mail name pass = (Inr response, t')"
  proof -
    from signup_success [OF ok] obtain newUser where
      c: "UserService_create hash t mail name pass = (Inr newUser, t')" and
      r: "response = apiResponse 201 ''Signup successful''
             (JObj (rest_without ''password'' (user_obj newUser)))"
      by blast
    have fresh: "mail \<notin> email ` set (rows t)" "name \<notin> username ` set (rows t)"
      using c create_email_taken [of mail t hash name pass]
            create_username_taken [of mail t name hash pass]
      by auto
    from c create_fresh [OF fresh, of hash pass]
    have n: "newUser = \<lparr>user_id = next_id t, username = name, password = hash pass,
                       email = mail, user_roles = [Role_USER]\<rparr>"
      by (simp add: Let_def)
    have d: "rest_without ''password'' (user_obj newUser)
               = [(''id'', JNum (int (next_id t))), (''username'', JStr name),
                  (''email'', JStr mail), (''roles'', JArr [JStr Role_USER])]"
      by (simp add: n rest_without_user_obj)
    have "''password'' \<notin> fst ` set response"
      by (simp add: r apiResponse_def)
    moreover have "get response ''data'' = JObj (rest_without ''password'' (user_obj newUser))"
      by (simp add: r apiResponse_def get_def)
    moreover have "''password'' \<notin> fst ` set (rest_without ''password'' (user_obj newUser))"
      by (rule rest_without_absent)
    ultimately show ?thesis using d by simp
  qed
  from a b show ?thesis by blast
qed

theorem results_carry_no_password_witness:
  "validateUser example_compare example_table ''a@x.com'' ''p''
     = Inr (rest_without ''password'' (user_obj alice))
   \<and> ''password'' \<notin> fst ` set (rest_without ''password'' (user_obj alice))
   \<and> (\<exists>t'. signup example_hash example_table ''b@x.com'' ''bob'' ''s''
        = (Inr [(''statusCode'', JNum 201), (''message'', JStr ''Signup successful''),
             (''data'', JObj [(''id'', JNum 2), (''username'', JStr ''bob''),
                              (''email'', JStr ''b@x.com''), (''roles'', JArr [JStr ''user''])])], t'))
   \<and> ''password'' \<notin> fst ` set [(''statusCode'', JNum 201), (''message'', JStr ''Signup successful''),
             (''data'', JObj [(''id'', JNum 2), (''username'', JStr ''bob''),
                              (''email'', JStr ''b@x.com''), (''roles'', JArr [JStr ''user''])])]"
  using results_carry_no_password [where compare = example_compare and t = example_table
          and mail = "''a@x.com''" and pass = "''p''"
          and result = "rest_without ''password'' (user_obj alice)"
          and hash = example_hash and name = "''bob''"
          and response = "[(''statusCode'', JNum 201), (''message'', JStr ''Signup successful''),
             (''data'', JObj [(''id'', JNum 2), (''username'', JStr ''bob''),
                              (''email'', JStr ''b@x.com''), (''roles'', JArr [JStr ''user''])])]"]
        results_carry_no_password [where hash = example_hash and t = example_table
          and mail = "''b@x.com''" and pass = "''s''" and name = "''bob''"
          and response = "[(''statusCode'', JNum 201), (''message'', JStr ''Signup successful''),
             (''data'', JObj [(''id'', JNum 2), (''username'', JStr ''bob''),
                              (''email'', JStr ''b@x.com''), (''roles'', JArr [JStr ''user''])])]"]
        validateUser_alice signup_bob
  by blast

section \<open>Claims without roles\<close>

text \<open>
  Claim C10.  When the claims of a verified token have no \<^verbatim>\<open>roles\<close> at all,
  \<^verbatim>\<open>RolesGuard.canActivate\<close> on an operation with declared roles returns
  \<^verbatim>\<open>false\<close>; it does not throw.
\<close>

theorem RolesGuard_absent_roles_denies:
  "roles u = None \<Longrightarrow> RolesGuard_canActivate (Some R) (Some u) = Inr False"
  by (simp add: RolesGuard_canActivate_def optional_includes_def list_ex_iff)

theorem RolesGuard_absent_roles_denies_witness:
  "roles \<lparr>roles = None, permissions = Some [''create-articles'']\<rparr> = None
   \<and> RolesGuard_canActivate (Some [''admin'', ''super_admin''])
        (Some \<lparr>roles = None, permissions = Some [''create-articles'']\<rparr>) = Inr False"
proof -
  have h: "roles \<lparr>roles = None, permissions = Some [''create-articles'']\<rparr> = None"
    by simp
  from RolesGuard_absent_roles_denies [OF h, of "[''admin'', ''super_admin'']"] h
  show ?thesis by blast
qed

end
